theory Spec2Isabelle
  imports Complex_Main "HOL-Library.Monad_Syntax"
begin

section \<open>Collaborators that PixelMask.h uses but does not define\<close>

text \<open>
  \<^verbatim>\<open>ChannelRange<channel_type>::min()\<close> and \<^verbatim>\<open>::max()\<close> are declared in another header
  of the library. They are taken as a parameter of the model: a pair of channel values.
\<close>

record 'ch ChannelRange =
  range_min :: 'ch
  range_max :: 'ch

text \<open>
  A channel value in a boolean context (\<^verbatim>\<open>if (arg.valid())\<close>, \<^verbatim>\<open>!pixel.valid()\<close>): the
  C++ conversion of an arithmetic value to \<^verbatim>\<open>bool\<close>, true exactly for a non-zero value.
\<close>

definition truth :: "'ch::zero \<Rightarrow> bool" where
  "truth x = (x \<noteq> 0)"

text \<open>
  The encoding that every validity test of the header relies on, and that its comments
  state (\<^verbatim>\<open>invalidate\<close>: "setting its valid bit to zero"): the minimum reads as false and the
  maximum as true.
\<close>

definition ChannelRange_ok :: "'ch::zero ChannelRange \<Rightarrow> bool" where
  "ChannelRange_ok R = (range_min R = 0 \<and> range_max R \<noteq> 0)"

text \<open>
  Modelled from the spec: \<^verbatim>\<open>compound_select_channel\<close> on a plain (unmasked) compound value
  is declared in another header; the spec describes it as the function that, given a
  compound value and a channel index, returns that channel. A compound child value is the
  list of its channels, its static channel count the length of the list. An index outside
  the type is undefined behaviour in C++: \<open>None\<close> here.
\<close>

definition compound_select_channel :: "'ch list \<Rightarrow> int \<Rightarrow> 'ch option" where
  "compound_select_channel c i =
     (if 0 \<le> i \<and> i < int (length c) then Some (c ! nat i) else None)"

text \<open>Writing through the reference that \<^verbatim>\<open>compound_select_channel<channel_type&>\<close> returns.\<close>

definition compound_assign_channel :: "'ch list \<Rightarrow> int \<Rightarrow> 'ch \<Rightarrow> 'ch list option" where
  "compound_assign_channel c i v =
     (if 0 \<le> i \<and> i < int (length c) then Some (c[nat i := v]) else None)"

text \<open>\<^verbatim>\<open>ChildT()\<close> for a compound child with \<open>n\<close> channels: every channel zero.\<close>

definition ChildT_default :: "int \<Rightarrow> 'ch::zero list" where
  "ChildT_default n = replicate (nat n) 0"

section \<open>The PixelMask wrapper pixel type\<close>

record ('p, 'ch) PixelMask =
  m_child :: 'p
  m_valid :: 'ch

text \<open>\<^verbatim>\<open>PixelMask()\<close>; the argument is the value of \<^verbatim>\<open>ChildT()\<close>.\<close>

definition PixelMask_default :: "'ch ChannelRange \<Rightarrow> 'p \<Rightarrow> ('p, 'ch) PixelMask" where
  "PixelMask_default R ChildT0 = \<lparr>m_child = ChildT0, m_valid = range_min R\<rparr>"

text \<open>\<^verbatim>\<open>PixelMask(T const& pix)\<close>, from the child pixel type value.\<close>

definition PixelMask_from :: "'ch ChannelRange \<Rightarrow> 'p \<Rightarrow> ('p, 'ch) PixelMask" where
  "PixelMask_from R pix = \<lparr>m_child = pix, m_valid = range_max R\<rparr>"

text \<open>
  \<^verbatim>\<open>PixelMask(T const& pix)\<close>, from the raw channel value: the assignment
  \<^verbatim>\<open>m_child = pix\<close> of a scalar to a one-channel child sets its only channel.
\<close>

definition PixelMask1 :: "'ch ChannelRange \<Rightarrow> 'ch \<Rightarrow> ('ch list, 'ch) PixelMask" where
  "PixelMask1 R a0 = \<lparr>m_child = [a0], m_valid = range_max R\<rparr>"

text \<open>\<^verbatim>\<open>valid()\<close> returns the value from the valid channel.\<close>

definition valid :: "('p, 'ch) PixelMask \<Rightarrow> 'ch" where
  "valid p = m_valid p"

text \<open>
  \<^verbatim>\<open>explicit PixelMask(PixelMask<OtherT> other)\<close>. \<open>conv\<close> is the child's conversion
  \<^verbatim>\<open>ChildT(other.child())\<close>, \<open>ChildT0\<close> the value of \<^verbatim>\<open>ChildT()\<close>; the invalid branch
  assigns \<^verbatim>\<open>channel_type()\<close>, the zero of the channel type.
\<close>

definition PixelMask_convert ::
  "'ch::zero ChannelRange \<Rightarrow> ('q \<Rightarrow> 'p) \<Rightarrow> 'p \<Rightarrow> ('q, 'och::zero) PixelMask \<Rightarrow> ('p, 'ch) PixelMask" where
  "PixelMask_convert R conv ChildT0 other =
     (if truth (valid other)
      then \<lparr>m_child = conv (m_child other), m_valid = range_max R\<rparr>
      else \<lparr>m_child = ChildT0, m_valid = 0\<rparr>)"

text \<open>
  The positional constructors ("use only when child has 2 / 3 / 4 channels"): every
  channel of the child is assigned, in order.
\<close>

definition PixelMask2 :: "'ch ChannelRange \<Rightarrow> 'ch \<Rightarrow> 'ch \<Rightarrow> ('ch list, 'ch) PixelMask" where
  "PixelMask2 R a0 a1 = \<lparr>m_child = [a0, a1], m_valid = range_max R\<rparr>"

definition PixelMask3 ::
  "'ch ChannelRange \<Rightarrow> 'ch \<Rightarrow> 'ch \<Rightarrow> 'ch \<Rightarrow> ('ch list, 'ch) PixelMask" where
  "PixelMask3 R a0 a1 a2 = \<lparr>m_child = [a0, a1, a2], m_valid = range_max R\<rparr>"

definition PixelMask4 ::
  "'ch ChannelRange \<Rightarrow> 'ch \<Rightarrow> 'ch \<Rightarrow> 'ch \<Rightarrow> 'ch \<Rightarrow> ('ch list, 'ch) PixelMask" where
  "PixelMask4 R a0 a1 a2 a3 = \<lparr>m_child = [a0, a1, a2, a3], m_valid = range_max R\<rparr>"

definition invalidate :: "'ch ChannelRange \<Rightarrow> ('p, 'ch) PixelMask \<Rightarrow> ('p, 'ch) PixelMask" where
  "invalidate R p = p\<lparr>m_valid := range_min R\<rparr>"

definition validate :: "'ch ChannelRange \<Rightarrow> ('p, 'ch) PixelMask \<Rightarrow> ('p, 'ch) PixelMask" where
  "validate R p = p\<lparr>m_valid := range_max R\<rparr>"

definition child :: "('p, 'ch) PixelMask \<Rightarrow> 'p" where
  "child p = m_child p"

text \<open>\<^verbatim>\<open>CompoundNumChannels<ChildT>::value\<close> for a compound child.\<close>

definition CompoundNumChannels :: "('ch list, 'ch) PixelMask \<Rightarrow> int" where
  "CompoundNumChannels p = int (length (m_child p))"

text \<open>
  \<^verbatim>\<open>operator[](int i)\<close>, read through the returned reference (the const overload and the
  mutable one read alike).
\<close>

definition subscript :: "('ch list, 'ch) PixelMask \<Rightarrow> int \<Rightarrow> 'ch option" where
  "subscript p i =
     (if i = CompoundNumChannels p then Some (m_valid p)
      else compound_select_channel (m_child p) i)"

text \<open>\<^verbatim>\<open>operator[](int i)\<close>, mutable overload, written through the returned reference.\<close>

definition subscript_assign ::
  "('ch list, 'ch) PixelMask \<Rightarrow> int \<Rightarrow> 'ch \<Rightarrow> ('ch list, 'ch) PixelMask option" where
  "subscript_assign p i v =
     (if i = CompoundNumChannels p then Some (p\<lparr>m_valid := v\<rparr>)
      else map_option (\<lambda>c. p\<lparr>m_child := c\<rparr>) (compound_assign_channel (m_child p) i v))"

text \<open>
  \<^verbatim>\<open>operator()(int i)\<close>, both overloads. The statement of the body at the validity index
  is \<^verbatim>\<open>return valid;\<close>: the name of the member function \<^verbatim>\<open>valid\<close>, not the field
  \<^verbatim>\<open>m_valid\<close>, which cannot initialize the \<^verbatim>\<open>channel_type&\<close> that the operator
  returns. The body of a member is instantiated as a whole, so it is ill-formed wherever the
  operator is called: no call yields a channel, at any index.
\<close>

datatype 'ch selected = Channel 'ch | Ill_formed

definition call_operator :: "('ch list, 'ch) PixelMask \<Rightarrow> int \<Rightarrow> 'ch selected" where
  "call_operator p i = Ill_formed"

section \<open>The mean of the channels\<close>

text \<open>
  \<^verbatim>\<open>mean_channel_value(PixelMask<T> const& arg)\<close>. \<open>num_channels\<close> is
  \<^verbatim>\<open>CompoundNumChannels<T>::value\<close>, the channel count of the child type \<open>T\<close>;
  \<^verbatim>\<open>compound_select_channel\<close> on the masked pixel goes through its \<^verbatim>\<open>operator[]\<close>.
  \<open>to_double\<close> is the conversion of a channel value to \<^verbatim>\<open>double\<close>, and a
  \<^verbatim>\<open>double\<close> is read as a real number; the quotient by a channel count of zero is no
  number in C++ and \<open>None\<close> here.
\<close>

function mean_loop ::
  "('ch \<Rightarrow> real) \<Rightarrow> ('ch list, 'ch) PixelMask \<Rightarrow> int \<Rightarrow> int \<Rightarrow> real \<Rightarrow> real option" where
  "mean_loop to_double arg num_channels i accum =
     (if i < num_channels - 1
      then case subscript arg i of
             None \<Rightarrow> None
           | Some c \<Rightarrow> mean_loop to_double arg num_channels (i + 1) (accum + to_double c)
      else Some accum)"
  by pat_completeness auto
termination
  by (relation "measure (\<lambda>(to_double, arg, num_channels, i, accum). nat (num_channels - 1 - i))")
     auto

declare mean_loop.simps [simp del]

definition mean_channel_value ::
  "('ch::zero \<Rightarrow> real) \<Rightarrow> ('ch list, 'ch) PixelMask \<Rightarrow> real option" where
  "mean_channel_value to_double arg =
     (if truth (valid arg)
      then let num_channels = CompoundNumChannels arg
           in do {
             accum \<leftarrow> mean_loop to_double arg num_channels 0 0;
             if num_channels = 0 then None else Some (accum / real_of_int num_channels)
           }
      else Some 0)"

text \<open>\<^verbatim>\<open>is_transparent(PixelMask<ChildT> const& pixel)\<close>.\<close>

definition is_transparent :: "('p, 'ch::zero) PixelMask \<Rightarrow> bool" where
  "is_transparent pixel = (\<not> truth (valid pixel))"

section \<open>Binary elementwise compound type functor\<close>

text \<open>
  \<^verbatim>\<open>for (int i=0; i<ChannelsN-1; ++i) result[i] = func(arg1[i],arg2[i]);\<close>
  An access outside a type is undefined in C++ and ends the run with \<open>None\<close>.
\<close>

function binary_construct_loop ::
  "('a \<Rightarrow> 'b \<Rightarrow> 'c) \<Rightarrow> int \<Rightarrow> ('a list, 'a) PixelMask \<Rightarrow> ('b list, 'b) PixelMask \<Rightarrow>
   int \<Rightarrow> ('c list, 'c) PixelMask \<Rightarrow> ('c list, 'c) PixelMask option" where
  "binary_construct_loop func ChannelsN arg1 arg2 i result =
     (if i < ChannelsN - 1
      then do {
        x \<leftarrow> subscript arg1 i;
        y \<leftarrow> subscript arg2 i;
        result' \<leftarrow> subscript_assign result i (func x y);
        binary_construct_loop func ChannelsN arg1 arg2 (i + 1) result'
      }
      else Some result)"
  by pat_completeness auto
termination
  by (relation "measure (\<lambda>(func, ChannelsN, arg1, arg2, i, result). nat (ChannelsN - 1 - i))")
     auto

declare binary_construct_loop.simps [simp del]

text \<open>The general multi-channel case of \<^verbatim>\<open>PixelMaskBinaryCompoundFunctor::Helper\<close>.\<close>

definition binary_construct ::
  "'c::zero ChannelRange \<Rightarrow> int \<Rightarrow> ('a \<Rightarrow> 'b \<Rightarrow> 'c) \<Rightarrow> ('a::zero list, 'a) PixelMask \<Rightarrow>
   ('b::zero list, 'b) PixelMask \<Rightarrow> ('c list, 'c) PixelMask option" where
  "binary_construct R ChannelsN func arg1 arg2 =
     (if truth (valid arg1) \<and> truth (valid arg2)
      then do {
        result \<leftarrow> binary_construct_loop func ChannelsN arg1 arg2 0
                    (PixelMask_default R (ChildT_default (ChannelsN - 1)));
        Some (validate R result)
      }
      else Some (PixelMask_default R (ChildT_default (ChannelsN - 1))))"

text \<open>Specialization for one channel + 1 "valid pixel" channel: \<^verbatim>\<open>Helper<true,2,...>\<close>.\<close>

definition binary_construct2 ::
  "'c::zero ChannelRange \<Rightarrow> ('a \<Rightarrow> 'b \<Rightarrow> 'c) \<Rightarrow> ('a::zero list, 'a) PixelMask \<Rightarrow>
   ('b::zero list, 'b) PixelMask \<Rightarrow> ('c list, 'c) PixelMask option" where
  "binary_construct2 R func arg1 arg2 =
     (if truth (valid arg1) \<and> truth (valid arg2)
      then do {
        x0 \<leftarrow> subscript arg1 0; y0 \<leftarrow> subscript arg2 0;
        Some (PixelMask1 R (func x0 y0))
      }
      else Some (PixelMask_default R (ChildT_default 1)))"

text \<open>Specialization for two channels + 1 valid pixel channel: \<^verbatim>\<open>Helper<true,3,...>\<close>.\<close>

definition binary_construct3 ::
  "'c::zero ChannelRange \<Rightarrow> ('a \<Rightarrow> 'b \<Rightarrow> 'c) \<Rightarrow> ('a::zero list, 'a) PixelMask \<Rightarrow>
   ('b::zero list, 'b) PixelMask \<Rightarrow> ('c list, 'c) PixelMask option" where
  "binary_construct3 R func arg1 arg2 =
     (if truth (valid arg1) \<and> truth (valid arg2)
      then do {
        x0 \<leftarrow> subscript arg1 0; y0 \<leftarrow> subscript arg2 0;
        x1 \<leftarrow> subscript arg1 1; y1 \<leftarrow> subscript arg2 1;
        Some (PixelMask2 R (func x0 y0) (func x1 y1))
      }
      else Some (PixelMask_default R (ChildT_default 2)))"

text \<open>Specialization for three channels + 1 valid pixel channel: \<^verbatim>\<open>Helper<true,4,...>\<close>.\<close>

definition binary_construct4 ::
  "'c::zero ChannelRange \<Rightarrow> ('a \<Rightarrow> 'b \<Rightarrow> 'c) \<Rightarrow> ('a::zero list, 'a) PixelMask \<Rightarrow>
   ('b::zero list, 'b) PixelMask \<Rightarrow> ('c list, 'c) PixelMask option" where
  "binary_construct4 R func arg1 arg2 =
     (if truth (valid arg1) \<and> truth (valid arg2)
      then do {
        x0 \<leftarrow> subscript arg1 0; y0 \<leftarrow> subscript arg2 0;
        x1 \<leftarrow> subscript arg1 1; y1 \<leftarrow> subscript arg2 1;
        x2 \<leftarrow> subscript arg1 2; y2 \<leftarrow> subscript arg2 2;
        Some (PixelMask3 R (func x0 y0) (func x1 y1) (func x2 y2))
      }
      else Some (PixelMask_default R (ChildT_default 3)))"

text \<open>Specialization for four channels + 1 valid pixel channel: \<^verbatim>\<open>Helper<true,5,...>\<close>.\<close>

definition binary_construct5 ::
  "'c::zero ChannelRange \<Rightarrow> ('a \<Rightarrow> 'b \<Rightarrow> 'c) \<Rightarrow> ('a::zero list, 'a) PixelMask \<Rightarrow>
   ('b::zero list, 'b) PixelMask \<Rightarrow> ('c list, 'c) PixelMask option" where
  "binary_construct5 R func arg1 arg2 =
     (if truth (valid arg1) \<and> truth (valid arg2)
      then do {
        x0 \<leftarrow> subscript arg1 0; y0 \<leftarrow> subscript arg2 0;
        x1 \<leftarrow> subscript arg1 1; y1 \<leftarrow> subscript arg2 1;
        x2 \<leftarrow> subscript arg1 2; y2 \<leftarrow> subscript arg2 2;
        x3 \<leftarrow> subscript arg1 3; y3 \<leftarrow> subscript arg2 3;
        Some (PixelMask4 R (func x0 y0) (func x1 y1) (func x2 y2) (func x3 y3))
      }
      else Some (PixelMask_default R (ChildT_default 4)))"

text \<open>
  \<^verbatim>\<open>PixelMaskBinaryCompoundFunctor::operator()\<close>: the choice of
  \<^verbatim>\<open>Helper<CompoundB,ChannelsN,...>\<close> among the primary template and its four partial
  specializations.
\<close>

definition PixelMaskBinaryCompoundFunctor ::
  "'c::zero ChannelRange \<Rightarrow> bool \<Rightarrow> int \<Rightarrow> ('a \<Rightarrow> 'b \<Rightarrow> 'c) \<Rightarrow> ('a::zero list, 'a) PixelMask \<Rightarrow>
   ('b::zero list, 'b) PixelMask \<Rightarrow> ('c list, 'c) PixelMask option" where
  "PixelMaskBinaryCompoundFunctor R CompoundB ChannelsN func arg1 arg2 =
     (if CompoundB \<and> ChannelsN = 2 then binary_construct2 R func arg1 arg2
      else if CompoundB \<and> ChannelsN = 3 then binary_construct3 R func arg1 arg2
      else if CompoundB \<and> ChannelsN = 4 then binary_construct4 R func arg1 arg2
      else if CompoundB \<and> ChannelsN = 5 then binary_construct5 R func arg1 arg2
      else binary_construct R ChannelsN func arg1 arg2)"

text \<open>
  \<^verbatim>\<open>compound_apply(func, arg1, arg2)\<close>. The result type is the first argument's type
  with the channel type of \<open>func\<close>'s result, so \<^verbatim>\<open>CompoundNumChannels<result_type>\<close>
  is the first argument's child channel count plus one. \<open>IsCompound\<close> is the trait
  \<^verbatim>\<open>IsCompound<result_type>::value\<close>, declared in another header.
\<close>

definition compound_apply ::
  "'c::zero ChannelRange \<Rightarrow> bool \<Rightarrow> ('a \<Rightarrow> 'b \<Rightarrow> 'c) \<Rightarrow> ('a::zero list, 'a) PixelMask \<Rightarrow>
   ('b::zero list, 'b) PixelMask \<Rightarrow> ('c list, 'c) PixelMask option" where
  "compound_apply R IsCompound func arg1 arg2 =
     PixelMaskBinaryCompoundFunctor R IsCompound (CompoundNumChannels arg1 + 1) func arg1 arg2"

section \<open>Binary in-place elementwise compound type functor\<close>

text \<open>
  \<^verbatim>\<open>for (int i=0; i<ChannelsN-1; ++i) func(arg1[i],arg2[i]);\<close>
  \<open>func\<close> receives \<^verbatim>\<open>arg1[i]\<close> by reference; the model's \<open>func x y\<close> is the value that
  the call leaves in that channel.
\<close>

function binary_apply_loop ::
  "('a \<Rightarrow> 'b \<Rightarrow> 'a) \<Rightarrow> int \<Rightarrow> ('a list, 'a) PixelMask \<Rightarrow> ('b list, 'b) PixelMask \<Rightarrow>
   int \<Rightarrow> ('a list, 'a) PixelMask option" where
  "binary_apply_loop func ChannelsN arg1 arg2 i =
     (if i < ChannelsN - 1
      then do {
        x \<leftarrow> subscript arg1 i;
        y \<leftarrow> subscript arg2 i;
        arg1' \<leftarrow> subscript_assign arg1 i (func x y);
        binary_apply_loop func ChannelsN arg1' arg2 (i + 1)
      }
      else Some arg1)"
  by pat_completeness auto
termination
  by (relation "measure (\<lambda>(func, ChannelsN, arg1, arg2, i). nat (ChannelsN - 1 - i))") auto

declare binary_apply_loop.simps [simp del]

text \<open>One statement \<^verbatim>\<open>func(arg1[i],arg2[i]);\<close> of an unrolled specialization.\<close>

definition binary_apply_at ::
  "('a \<Rightarrow> 'b \<Rightarrow> 'a) \<Rightarrow> int \<Rightarrow> ('b list, 'b) PixelMask \<Rightarrow> ('a list, 'a) PixelMask \<Rightarrow>
   ('a list, 'a) PixelMask option" where
  "binary_apply_at func i arg2 arg1 = do {
     x \<leftarrow> subscript arg1 i;
     y \<leftarrow> subscript arg2 i;
     subscript_assign arg1 i (func x y)
   }"

text \<open>The general multi-channel case of \<^verbatim>\<open>PixelMaskBinaryInPlaceCompoundFunctor::Helper\<close>.\<close>

definition binary_apply ::
  "'a::zero ChannelRange \<Rightarrow> int \<Rightarrow> ('a \<Rightarrow> 'b \<Rightarrow> 'a) \<Rightarrow> ('a list, 'a) PixelMask \<Rightarrow>
   ('b::zero list, 'b) PixelMask \<Rightarrow> ('a list, 'a) PixelMask option" where
  "binary_apply R ChannelsN func arg1 arg2 =
     (if truth (valid arg1) \<and> truth (valid arg2)
      then binary_apply_loop func ChannelsN arg1 arg2 0
      else Some (PixelMask_default R (ChildT_default (ChannelsN - 1))))"

definition binary_apply2 ::
  "'a::zero ChannelRange \<Rightarrow> ('a \<Rightarrow> 'b \<Rightarrow> 'a) \<Rightarrow> ('a list, 'a) PixelMask \<Rightarrow>
   ('b::zero list, 'b) PixelMask \<Rightarrow> ('a list, 'a) PixelMask option" where
  "binary_apply2 R func arg1 arg2 =
     (if truth (valid arg1) \<and> truth (valid arg2)
      then binary_apply_at func 0 arg2 arg1
      else Some (PixelMask_default R (ChildT_default 1)))"

definition binary_apply3 ::
  "'a::zero ChannelRange \<Rightarrow> ('a \<Rightarrow> 'b \<Rightarrow> 'a) \<Rightarrow> ('a list, 'a) PixelMask \<Rightarrow>
   ('b::zero list, 'b) PixelMask \<Rightarrow> ('a list, 'a) PixelMask option" where
  "binary_apply3 R func arg1 arg2 =
     (if truth (valid arg1) \<and> truth (valid arg2)
      then binary_apply_at func 0 arg2 arg1 \<bind> binary_apply_at func 1 arg2
      else Some (PixelMask_default R (ChildT_default 2)))"

definition binary_apply4 ::
  "'a::zero ChannelRange \<Rightarrow> ('a \<Rightarrow> 'b \<Rightarrow> 'a) \<Rightarrow> ('a list, 'a) PixelMask \<Rightarrow>
   ('b::zero list, 'b) PixelMask \<Rightarrow> ('a list, 'a) PixelMask option" where
  "binary_apply4 R func arg1 arg2 =
     (if truth (valid arg1) \<and> truth (valid arg2)
      then binary_apply_at func 0 arg2 arg1 \<bind> binary_apply_at func 1 arg2
             \<bind> binary_apply_at func 2 arg2
      else Some (PixelMask_default R (ChildT_default 3)))"

definition binary_apply5 ::
  "'a::zero ChannelRange \<Rightarrow> ('a \<Rightarrow> 'b \<Rightarrow> 'a) \<Rightarrow> ('a list, 'a) PixelMask \<Rightarrow>
   ('b::zero list, 'b) PixelMask \<Rightarrow> ('a list, 'a) PixelMask option" where
  "binary_apply5 R func arg1 arg2 =
     (if truth (valid arg1) \<and> truth (valid arg2)
      then binary_apply_at func 0 arg2 arg1 \<bind> binary_apply_at func 1 arg2
             \<bind> binary_apply_at func 2 arg2 \<bind> binary_apply_at func 3 arg2
      else Some (PixelMask_default R (ChildT_default 4)))"

text \<open>\<^verbatim>\<open>PixelMaskBinaryInPlaceCompoundFunctor::operator()\<close>.\<close>

definition PixelMaskBinaryInPlaceCompoundFunctor ::
  "'a::zero ChannelRange \<Rightarrow> bool \<Rightarrow> int \<Rightarrow> ('a \<Rightarrow> 'b \<Rightarrow> 'a) \<Rightarrow> ('a list, 'a) PixelMask \<Rightarrow>
   ('b::zero list, 'b) PixelMask \<Rightarrow> ('a list, 'a) PixelMask option" where
  "PixelMaskBinaryInPlaceCompoundFunctor R CompoundB ChannelsN func arg1 arg2 =
     (if CompoundB \<and> ChannelsN = 2 then binary_apply2 R func arg1 arg2
      else if CompoundB \<and> ChannelsN = 3 then binary_apply3 R func arg1 arg2
      else if CompoundB \<and> ChannelsN = 4 then binary_apply4 R func arg1 arg2
      else if CompoundB \<and> ChannelsN = 5 then binary_apply5 R func arg1 arg2
      else binary_apply R ChannelsN func arg1 arg2)"

text \<open>
  \<^verbatim>\<open>compound_apply_in_place(func, arg1, arg2)\<close>: the helper is chosen by
  \<^verbatim>\<open>IsCompound<Arg1T>\<close> and \<^verbatim>\<open>CompoundNumChannels<Arg1T>\<close>, one more than the child's
  channel count. The returned value is the new content of \<open>arg1\<close>.
\<close>

definition compound_apply_in_place ::
  "'a::zero ChannelRange \<Rightarrow> bool \<Rightarrow> ('a \<Rightarrow> 'b \<Rightarrow> 'a) \<Rightarrow> ('a list, 'a) PixelMask \<Rightarrow>
   ('b::zero list, 'b) PixelMask \<Rightarrow> ('a list, 'a) PixelMask option" where
  "compound_apply_in_place R IsCompound func arg1 arg2 =
     PixelMaskBinaryInPlaceCompoundFunctor R IsCompound (CompoundNumChannels arg1 + 1)
       func arg1 arg2"

section \<open>Unary elementwise compound type functor\<close>

function unary_construct_loop ::
  "('a \<Rightarrow> 'c) \<Rightarrow> int \<Rightarrow> ('a list, 'a) PixelMask \<Rightarrow> int \<Rightarrow> ('c list, 'c) PixelMask \<Rightarrow>
   ('c list, 'c) PixelMask option" where
  "unary_construct_loop func ChannelsN arg i result =
     (if i < ChannelsN - 1
      then do {
        x \<leftarrow> subscript arg i;
        result' \<leftarrow> subscript_assign result i (func x);
        unary_construct_loop func ChannelsN arg (i + 1) result'
      }
      else Some result)"
  by pat_completeness auto
termination
  by (relation "measure (\<lambda>(func, ChannelsN, arg, i, result). nat (ChannelsN - 1 - i))") auto

declare unary_construct_loop.simps [simp del]

text \<open>The general multi-channel case of \<^verbatim>\<open>PixelMaskUnaryCompoundFunctor::Helper\<close>.\<close>

definition unary_construct ::
  "'c::zero ChannelRange \<Rightarrow> int \<Rightarrow> ('a \<Rightarrow> 'c) \<Rightarrow> ('a::zero list, 'a) PixelMask \<Rightarrow>
   ('c list, 'c) PixelMask option" where
  "unary_construct R ChannelsN func arg =
     (if truth (valid arg)
      then do {
        result \<leftarrow> unary_construct_loop func ChannelsN arg 0
                    (PixelMask_default R (ChildT_default (ChannelsN - 1)));
        Some (validate R result)
      }
      else Some (PixelMask_default R (ChildT_default (ChannelsN - 1))))"

definition unary_construct2 ::
  "'c::zero ChannelRange \<Rightarrow> ('a \<Rightarrow> 'c) \<Rightarrow> ('a::zero list, 'a) PixelMask \<Rightarrow>
   ('c list, 'c) PixelMask option" where
  "unary_construct2 R func arg =
     (if truth (valid arg)
      then do {
        x0 \<leftarrow> subscript arg 0;
        Some (PixelMask1 R (func x0))
      }
      else Some (PixelMask_default R (ChildT_default 1)))"

definition unary_construct3 ::
  "'c::zero ChannelRange \<Rightarrow> ('a \<Rightarrow> 'c) \<Rightarrow> ('a::zero list, 'a) PixelMask \<Rightarrow>
   ('c list, 'c) PixelMask option" where
  "unary_construct3 R func arg =
     (if truth (valid arg)
      then do {
        x0 \<leftarrow> subscript arg 0; x1 \<leftarrow> subscript arg 1;
        Some (PixelMask2 R (func x0) (func x1))
      }
      else Some (PixelMask_default R (ChildT_default 2)))"

definition unary_construct4 ::
  "'c::zero ChannelRange \<Rightarrow> ('a \<Rightarrow> 'c) \<Rightarrow> ('a::zero list, 'a) PixelMask \<Rightarrow>
   ('c list, 'c) PixelMask option" where
  "unary_construct4 R func arg =
     (if truth (valid arg)
      then do {
        x0 \<leftarrow> subscript arg 0; x1 \<leftarrow> subscript arg 1; x2 \<leftarrow> subscript arg 2;
        Some (PixelMask3 R (func x0) (func x1) (func x2))
      }
      else Some (PixelMask_default R (ChildT_default 3)))"

definition unary_construct5 ::
  "'c::zero ChannelRange \<Rightarrow> ('a \<Rightarrow> 'c) \<Rightarrow> ('a::zero list, 'a) PixelMask \<Rightarrow>
   ('c list, 'c) PixelMask option" where
  "unary_construct5 R func arg =
     (if truth (valid arg)
      then do {
        x0 \<leftarrow> subscript arg 0; x1 \<leftarrow> subscript arg 1; x2 \<leftarrow> subscript arg 2;
        x3 \<leftarrow> subscript arg 3;
        Some (PixelMask4 R (func x0) (func x1) (func x2) (func x3))
      }
      else Some (PixelMask_default R (ChildT_default 4)))"

text \<open>\<^verbatim>\<open>PixelMaskUnaryCompoundFunctor::operator()\<close>.\<close>

definition PixelMaskUnaryCompoundFunctor ::
  "'c::zero ChannelRange \<Rightarrow> bool \<Rightarrow> int \<Rightarrow> ('a \<Rightarrow> 'c) \<Rightarrow> ('a::zero list, 'a) PixelMask \<Rightarrow>
   ('c list, 'c) PixelMask option" where
  "PixelMaskUnaryCompoundFunctor R CompoundB ChannelsN func arg =
     (if CompoundB \<and> ChannelsN = 2 then unary_construct2 R func arg
      else if CompoundB \<and> ChannelsN = 3 then unary_construct3 R func arg
      else if CompoundB \<and> ChannelsN = 4 then unary_construct4 R func arg
      else if CompoundB \<and> ChannelsN = 5 then unary_construct5 R func arg
      else unary_construct R ChannelsN func arg)"

text \<open>\<^verbatim>\<open>compound_apply(func, arg)\<close>, the unary overload.\<close>

definition compound_apply1 ::
  "'c::zero ChannelRange \<Rightarrow> bool \<Rightarrow> ('a \<Rightarrow> 'c) \<Rightarrow> ('a::zero list, 'a) PixelMask \<Rightarrow>
   ('c list, 'c) PixelMask option" where
  "compound_apply1 R IsCompound func arg =
     PixelMaskUnaryCompoundFunctor R IsCompound (CompoundNumChannels arg + 1) func arg"

section \<open>Unary in-place elementwise compound type functor\<close>

function unary_apply_loop ::
  "('a \<Rightarrow> 'a) \<Rightarrow> int \<Rightarrow> ('a list, 'a) PixelMask \<Rightarrow> int \<Rightarrow> ('a list, 'a) PixelMask option" where
  "unary_apply_loop func ChannelsN arg i =
     (if i < ChannelsN - 1
      then do {
        x \<leftarrow> subscript arg i;
        arg' \<leftarrow> subscript_assign arg i (func x);
        unary_apply_loop func ChannelsN arg' (i + 1)
      }
      else Some arg)"
  by pat_completeness auto
termination
  by (relation "measure (\<lambda>(func, ChannelsN, arg, i). nat (ChannelsN - 1 - i))") auto

declare unary_apply_loop.simps [simp del]

text \<open>One statement \<^verbatim>\<open>func(arg[i]);\<close> of an unrolled specialization.\<close>

definition unary_apply_at ::
  "('a \<Rightarrow> 'a) \<Rightarrow> int \<Rightarrow> ('a list, 'a) PixelMask \<Rightarrow> ('a list, 'a) PixelMask option" where
  "unary_apply_at func i arg = do {
     x \<leftarrow> subscript arg i;
     subscript_assign arg i (func x)
   }"

text \<open>The general multi-channel case of \<^verbatim>\<open>PixelMaskUnaryInPlaceCompoundFunctor::Helper\<close>.\<close>

definition unary_apply ::
  "'a::zero ChannelRange \<Rightarrow> int \<Rightarrow> ('a \<Rightarrow> 'a) \<Rightarrow> ('a list, 'a) PixelMask \<Rightarrow>
   ('a list, 'a) PixelMask option" where
  "unary_apply R ChannelsN func arg =
     (if truth (valid arg)
      then unary_apply_loop func ChannelsN arg 0
      else Some (PixelMask_default R (ChildT_default (ChannelsN - 1))))"

definition unary_apply2 ::
  "'a::zero ChannelRange \<Rightarrow> ('a \<Rightarrow> 'a) \<Rightarrow> ('a list, 'a) PixelMask \<Rightarrow>
   ('a list, 'a) PixelMask option" where
  "unary_apply2 R func arg =
     (if truth (valid arg)
      then unary_apply_at func 0 arg
      else Some (PixelMask_default R (ChildT_default 1)))"

definition unary_apply3 ::
  "'a::zero ChannelRange \<Rightarrow> ('a \<Rightarrow> 'a) \<Rightarrow> ('a list, 'a) PixelMask \<Rightarrow>
   ('a list, 'a) PixelMask option" where
  "unary_apply3 R func arg =
     (if truth (valid arg)
      then unary_apply_at func 0 arg \<bind> unary_apply_at func 1
      else Some (PixelMask_default R (ChildT_default 2)))"

definition unary_apply4 ::
  "'a::zero ChannelRange \<Rightarrow> ('a \<Rightarrow> 'a) \<Rightarrow> ('a list, 'a) PixelMask \<Rightarrow>
   ('a list, 'a) PixelMask option" where
  "unary_apply4 R func arg =
     (if truth (valid arg)
      then unary_apply_at func 0 arg \<bind> unary_apply_at func 1 \<bind> unary_apply_at func 2
      else Some (PixelMask_default R (ChildT_default 3)))"

definition unary_apply5 ::
  "'a::zero ChannelRange \<Rightarrow> ('a \<Rightarrow> 'a) \<Rightarrow> ('a list, 'a) PixelMask \<Rightarrow>
   ('a list, 'a) PixelMask option" where
  "unary_apply5 R func arg =
     (if truth (valid arg)
      then unary_apply_at func 0 arg \<bind> unary_apply_at func 1 \<bind> unary_apply_at func 2
             \<bind> unary_apply_at func 3
      else Some (PixelMask_default R (ChildT_default 4)))"

text \<open>\<^verbatim>\<open>PixelMaskUnaryInPlaceCompoundFunctor::operator()\<close>, the non-const overload.\<close>

definition PixelMaskUnaryInPlaceCompoundFunctor ::
  "'a::zero ChannelRange \<Rightarrow> bool \<Rightarrow> int \<Rightarrow> ('a \<Rightarrow> 'a) \<Rightarrow> ('a list, 'a) PixelMask \<Rightarrow>
   ('a list, 'a) PixelMask option" where
  "PixelMaskUnaryInPlaceCompoundFunctor R CompoundB ChannelsN func arg =
     (if CompoundB \<and> ChannelsN = 2 then unary_apply2 R func arg
      else if CompoundB \<and> ChannelsN = 3 then unary_apply3 R func arg
      else if CompoundB \<and> ChannelsN = 4 then unary_apply4 R func arg
      else if CompoundB \<and> ChannelsN = 5 then unary_apply5 R func arg
      else unary_apply R ChannelsN func arg)"

text \<open>\<^verbatim>\<open>compound_apply_in_place(func, arg)\<close> on a mutable pixel.\<close>

definition compound_apply_in_place1 ::
  "'a::zero ChannelRange \<Rightarrow> bool \<Rightarrow> ('a \<Rightarrow> 'a) \<Rightarrow> ('a list, 'a) PixelMask \<Rightarrow>
   ('a list, 'a) PixelMask option" where
  "compound_apply_in_place1 R IsCompound func arg =
     PixelMaskUnaryInPlaceCompoundFunctor R IsCompound (CompoundNumChannels arg + 1) func arg"

section \<open>The mask views\<close>

text \<open>
  An image view, as the two views use it: its \<^verbatim>\<open>operator()(col, row, plane)\<close>.
\<close>

type_synonym 'p ImageView = "int \<Rightarrow> int \<Rightarrow> int \<Rightarrow> 'p"

record 'p CreatePixelMaskView =
  m_view :: "'p ImageView"
  m_nodata_value :: 'p
  m_use_nodata_value :: bool

text \<open>
  The constructor \<^verbatim>\<open>CreatePixelMaskView(view, nodata_value)\<close>. Its initializer list is
  \<^verbatim>\<open>m_view(view), m_use_nodata_value(false)\<close>; \<^verbatim>\<open>m_nodata_value\<close> is left
  default-initialized, and \<open>uninit\<close> stands for whatever value that leaves in it.
\<close>

definition CreatePixelMaskView_init :: "'p \<Rightarrow> 'p ImageView \<Rightarrow> 'p \<Rightarrow> 'p CreatePixelMaskView" where
  "CreatePixelMaskView_init uninit view nodata_value =
     \<lparr>m_view = view, m_nodata_value = uninit, m_use_nodata_value = False\<rparr>"

definition set_nodata_value :: "'p CreatePixelMaskView \<Rightarrow> 'p \<Rightarrow> 'p CreatePixelMaskView" where
  "set_nodata_value pm v = pm\<lparr>m_nodata_value := v, m_use_nodata_value := True\<rparr>"

text \<open>\<^verbatim>\<open>CreatePixelMaskView::operator()(col, row, plane)\<close>.\<close>

definition CreatePixelMaskView_at ::
  "'ch ChannelRange \<Rightarrow> 'p CreatePixelMaskView \<Rightarrow> int \<Rightarrow> int \<Rightarrow> int \<Rightarrow> ('p, 'ch) PixelMask" where
  "CreatePixelMaskView_at R pm col row plane =
     (if m_use_nodata_value pm \<and> m_view pm col row plane = m_nodata_value pm
      then let result = PixelMask_from R (m_view pm col row plane)
           in invalidate R result
      else PixelMask_from R (m_view pm col row plane))"

text \<open>
  \<^verbatim>\<open>create_mask(view, value)\<close>. (The overload \<^verbatim>\<open>create_mask(view)\<close> calls a
  one-argument constructor, which the class does not declare.)
\<close>

definition create_mask :: "'p \<Rightarrow> 'p ImageView \<Rightarrow> 'p \<Rightarrow> 'p CreatePixelMaskView" where
  "create_mask uninit view v =
     (let pm_view = CreatePixelMaskView_init uninit view v
      in set_nodata_value pm_view v)"

text \<open>
  The view type \<^verbatim>\<open>ViewT\<close> that \<^verbatim>\<open>ApplyPixelMaskView\<close> wraps, with the one property of
  its \<^verbatim>\<open>operator()\<close> that the wrapping view depends on: \<open>Stored\<close> when the operator
  returns \<^verbatim>\<open>pixel_type&\<close>, a reference to a pixel that the view holds (an image of masked
  pixels); \<open>Computed\<close> when it returns its result by value, as
  \<^verbatim>\<open>CreatePixelMaskView::operator()\<close> does (its \<^verbatim>\<open>result_type\<close> is
  \<^verbatim>\<open>PixelMask<...> const\<close>).
\<close>

datatype 'px ViewT = Stored "'px ImageView" | Computed "'px ImageView"

text \<open>The mask creation view, as a view for another view to wrap.\<close>

definition CreatePixelMaskView_view ::
  "'ch ChannelRange \<Rightarrow> 'p CreatePixelMaskView \<Rightarrow> ('p, 'ch) PixelMask ViewT" where
  "CreatePixelMaskView_view R pm = Computed (CreatePixelMaskView_at R pm)"

record ('p, 'ch) ApplyPixelMaskView =
  m_masked_view :: "('p, 'ch) PixelMask ViewT"
  m_replacement_value :: 'p

text \<open>
  The constructor \<^verbatim>\<open>ApplyPixelMaskView(view, replacement_value)\<close>. Its initializer list
  is \<^verbatim>\<open>m_view(view)\<close> and its body is empty: \<^verbatim>\<open>m_replacement_value\<close> is left
  default-initialized (\<open>uninit\<close>; for the pixel classes of the library, whose default
  constructors clear every channel, the zero pixel). The field \<^verbatim>\<open>m_view\<close> is named
  \<open>m_masked_view\<close> here, apart from the field of the other view.
\<close>

definition ApplyPixelMaskView_init ::
  "'p \<Rightarrow> ('p, 'ch) PixelMask ViewT \<Rightarrow> 'p \<Rightarrow> ('p, 'ch) ApplyPixelMaskView" where
  "ApplyPixelMaskView_init uninit view replacement_value =
     \<lparr>m_masked_view = view, m_replacement_value = uninit\<rparr>"

text \<open>
  \<^verbatim>\<open>ApplyPixelMaskView::operator()(col, row, plane)\<close>. Its first statement binds
  \<^verbatim>\<open>typename ViewT::pixel_type& px\<close> to \<^verbatim>\<open>m_view(col,row,plane)\<close>: a non-const
  reference, which only a pixel that the wrapped view holds can initialize. Over a view
  whose operator returns by value the statement is ill-formed, and the query yields no
  pixel: \<open>None\<close>.
\<close>

definition ApplyPixelMaskView_at ::
  "('p, 'ch::zero) ApplyPixelMaskView \<Rightarrow> int \<Rightarrow> int \<Rightarrow> int \<Rightarrow> 'p option" where
  "ApplyPixelMaskView_at am col row plane =
     (case m_masked_view am of
        Computed pixels \<Rightarrow> None
      | Stored pixels \<Rightarrow>
          let px = pixels col row plane
          in Some (if \<not> is_transparent px then child px else m_replacement_value am))"

text \<open>\<^verbatim>\<open>apply_mask(view, value)\<close>; \<^verbatim>\<open>apply_mask(view)\<close> passes \<^verbatim>\<open>child_type()\<close>.\<close>

definition apply_mask ::
  "'p \<Rightarrow> ('p, 'ch) PixelMask ViewT \<Rightarrow> 'p \<Rightarrow> ('p, 'ch) ApplyPixelMaskView" where
  "apply_mask uninit view v = ApplyPixelMaskView_init uninit view v"

section \<open>Notions the properties are stated with\<close>

text \<open>
  The encoding invariant of the validity channel: it holds the provider's minimum or its
  maximum.
\<close>

definition validity_encoded :: "'ch ChannelRange \<Rightarrow> ('p, 'ch) PixelMask \<Rightarrow> bool" where
  "validity_encoded R p = (m_valid p = range_min R \<or> m_valid p = range_max R)"

text \<open>
  Modelled from the spec: the range provider at an unsigned 8-bit channel type, whose
  minimum is 0 and whose maximum is 255. The examples below use it, with the channel values
  as integers.
\<close>

definition ChannelRange_uint8 :: "int ChannelRange" where
  "ChannelRange_uint8 = \<lparr>range_min = 0, range_max = 255\<rparr>"

text \<open>
  An input for the examples: the image that holds the pixel \<open>x\<close> at every coordinate
  (the \<^verbatim>\<open>image_of(x)\<close> of the round-trip property).
\<close>

definition image_of :: "'p \<Rightarrow> 'p ImageView" where
  "image_of x = (\<lambda>col row plane. x)"

section \<open>Evaluation lemmas\<close>

lemma ChildT_default_numerals:
  "ChildT_default 1 = [0]" "ChildT_default 2 = [0, 0]" "ChildT_default 3 = [0, 0, 0]"
  "ChildT_default 4 = [0, 0, 0, 0]"
  by (simp_all add: ChildT_default_def eval_nat_numeral)

lemma subscript_assign_payload:
  "0 \<le> i \<Longrightarrow> i < int (length c) \<Longrightarrow>
   subscript_assign \<lparr>m_child = c, m_valid = v\<rparr> i x =
     Some \<lparr>m_child = c[nat i := x], m_valid = v\<rparr>"
  by (simp add: subscript_assign_def compound_assign_channel_def CompoundNumChannels_def)

lemma subscript_payload:
  "0 \<le> i \<Longrightarrow> i < int (length (m_child p)) \<Longrightarrow> subscript p i = Some (m_child p ! nat i)"
  by (simp add: subscript_def compound_select_channel_def CompoundNumChannels_def)

lemma subscript_validity: "subscript p (CompoundNumChannels p) = Some (m_valid p)"
  by (simp add: subscript_def)

lemma subscript_assign_channel:
  "0 \<le> i \<Longrightarrow> i < int (length (m_child p)) \<Longrightarrow>
   subscript_assign p i x = Some (p\<lparr>m_child := (m_child p)[nat i := x]\<rparr>)"
  by (simp add: subscript_assign_def compound_assign_channel_def CompoundNumChannels_def)

lemma ChannelRange_uint8_ok: "ChannelRange_ok ChannelRange_uint8"
  by (simp add: ChannelRange_ok_def ChannelRange_uint8_def)

lemmas ctor_defs = PixelMask_default_def PixelMask1_def PixelMask2_def PixelMask3_def
  PixelMask4_def ChildT_default_numerals validate_def

lemmas view_defs = ApplyPixelMaskView_at_def apply_mask_def ApplyPixelMaskView_init_def
  CreatePixelMaskView_view_def
  is_transparent_def truth_def valid_def child_def CreatePixelMaskView_at_def create_mask_def
  CreatePixelMaskView_init_def set_nodata_value_def PixelMask_from_def invalidate_def

section \<open>The unrolled helpers against the general loop\<close>

lemma binary_construct2_general: "binary_construct2 R f a b = binary_construct R 2 f a b"
  by (simp add: binary_construct2_def binary_construct_def binary_construct_loop.simps
      ctor_defs subscript_assign_payload)

lemma binary_construct3_general: "binary_construct3 R f a b = binary_construct R 3 f a b"
  by (simp add: binary_construct3_def binary_construct_def binary_construct_loop.simps
      ctor_defs subscript_assign_payload)

lemma binary_construct4_general: "binary_construct4 R f a b = binary_construct R 4 f a b"
  by (simp add: binary_construct4_def binary_construct_def binary_construct_loop.simps
      ctor_defs subscript_assign_payload eval_nat_numeral)

lemma binary_construct5_general: "binary_construct5 R f a b = binary_construct R 5 f a b"
  by (simp add: binary_construct5_def binary_construct_def binary_construct_loop.simps
      ctor_defs subscript_assign_payload eval_nat_numeral)

lemma binary_apply2_general: "binary_apply2 R f a b = binary_apply R 2 f a b"
  by (simp add: binary_apply2_def binary_apply_def binary_apply_loop.simps
      binary_apply_at_def [abs_def] ctor_defs)

lemma binary_apply3_general: "binary_apply3 R f a b = binary_apply R 3 f a b"
  by (simp add: binary_apply3_def binary_apply_def binary_apply_loop.simps
      binary_apply_at_def [abs_def] ctor_defs)

lemma binary_apply4_general: "binary_apply4 R f a b = binary_apply R 4 f a b"
  by (simp add: binary_apply4_def binary_apply_def binary_apply_loop.simps
      binary_apply_at_def [abs_def] ctor_defs)

lemma binary_apply5_general: "binary_apply5 R f a b = binary_apply R 5 f a b"
  by (simp add: binary_apply5_def binary_apply_def binary_apply_loop.simps
      binary_apply_at_def [abs_def] ctor_defs)

lemma unary_construct2_general: "unary_construct2 R f a = unary_construct R 2 f a"
  by (simp add: unary_construct2_def unary_construct_def unary_construct_loop.simps
      ctor_defs subscript_assign_payload)

lemma unary_construct3_general: "unary_construct3 R f a = unary_construct R 3 f a"
  by (simp add: unary_construct3_def unary_construct_def unary_construct_loop.simps
      ctor_defs subscript_assign_payload)

lemma unary_construct4_general: "unary_construct4 R f a = unary_construct R 4 f a"
  by (simp add: unary_construct4_def unary_construct_def unary_construct_loop.simps
      ctor_defs subscript_assign_payload eval_nat_numeral)

lemma unary_construct5_general: "unary_construct5 R f a = unary_construct R 5 f a"
  by (simp add: unary_construct5_def unary_construct_def unary_construct_loop.simps
      ctor_defs subscript_assign_payload eval_nat_numeral)

lemma unary_apply2_general: "unary_apply2 R f a = unary_apply R 2 f a"
  by (simp add: unary_apply2_def unary_apply_def unary_apply_loop.simps
      unary_apply_at_def [abs_def] ctor_defs)

lemma unary_apply3_general: "unary_apply3 R f a = unary_apply R 3 f a"
  by (simp add: unary_apply3_def unary_apply_def unary_apply_loop.simps
      unary_apply_at_def [abs_def] ctor_defs)

lemma unary_apply4_general: "unary_apply4 R f a = unary_apply R 4 f a"
  by (simp add: unary_apply4_def unary_apply_def unary_apply_loop.simps
      unary_apply_at_def [abs_def] ctor_defs)

lemma unary_apply5_general: "unary_apply5 R f a = unary_apply R 5 f a"
  by (simp add: unary_apply5_def unary_apply_def unary_apply_loop.simps
      unary_apply_at_def [abs_def] ctor_defs)

text \<open>Whichever helper the functor picks, it computes what the general helper computes.\<close>

lemma PixelMaskBinaryCompoundFunctor_general:
  "PixelMaskBinaryCompoundFunctor R CompoundB ChannelsN f a b = binary_construct R ChannelsN f a b"
  by (simp add: PixelMaskBinaryCompoundFunctor_def binary_construct2_general
      binary_construct3_general binary_construct4_general binary_construct5_general)

lemma PixelMaskBinaryInPlaceCompoundFunctor_general:
  "PixelMaskBinaryInPlaceCompoundFunctor R CompoundB ChannelsN f a b =
     binary_apply R ChannelsN f a b"
  by (simp add: PixelMaskBinaryInPlaceCompoundFunctor_def binary_apply2_general
      binary_apply3_general binary_apply4_general binary_apply5_general)

lemma PixelMaskUnaryCompoundFunctor_general:
  "PixelMaskUnaryCompoundFunctor R CompoundB ChannelsN f a = unary_construct R ChannelsN f a"
  by (simp add: PixelMaskUnaryCompoundFunctor_def unary_construct2_general
      unary_construct3_general unary_construct4_general unary_construct5_general)

lemma PixelMaskUnaryInPlaceCompoundFunctor_general:
  "PixelMaskUnaryInPlaceCompoundFunctor R CompoundB ChannelsN f a = unary_apply R ChannelsN f a"
  by (simp add: PixelMaskUnaryInPlaceCompoundFunctor_def unary_apply2_general
      unary_apply3_general unary_apply4_general unary_apply5_general)

section \<open>What the four loops compute\<close>

text \<open>
  Each loop, started at \<open>i\<close> on operands that have the channels it reads, returns; it
  leaves the validity channel and the channels below \<open>i\<close> alone and stores the value of
  \<open>func\<close> in every channel from \<open>i\<close> on.
\<close>

lemma binary_construct_loop_channels:
  "0 \<le> i \<Longrightarrow> ChannelsN - 1 = int (length (m_child result)) \<Longrightarrow>
   length (m_child result) \<le> length (m_child arg1) \<Longrightarrow>
   length (m_child result) \<le> length (m_child arg2) \<Longrightarrow>
   \<exists>res. binary_construct_loop func ChannelsN arg1 arg2 i result = Some res \<and>
         m_valid res = m_valid result \<and>
         length (m_child res) = length (m_child result) \<and>
         (\<forall>j<length (m_child result).
            m_child res ! j =
              (if i \<le> int j then func (m_child arg1 ! j) (m_child arg2 ! j)
               else m_child result ! j))"
proof (induction func ChannelsN arg1 arg2 i result rule: binary_construct_loop.induct)
  case (1 func ChannelsN arg1 arg2 i result)
  show ?case
  proof (cases "i < ChannelsN - 1")
    case False
    with "1.prems" show ?thesis
      by (simp add: binary_construct_loop.simps)
  next
    case True
    let ?x = "m_child arg1 ! nat i" and ?y = "m_child arg2 ! nat i"
    let ?r = "result\<lparr>m_child := (m_child result)[nat i := func ?x ?y]\<rparr>"
    from True "1.prems" have rd1: "subscript arg1 i = Some ?x"
      and rd2: "subscript arg2 i = Some ?y"
      and wr: "subscript_assign result i (func ?x ?y) = Some ?r"
      by (simp_all add: subscript_payload subscript_assign_channel)
    from "1.prems" have
      "\<exists>res. binary_construct_loop func ChannelsN arg1 arg2 (i + 1) ?r = Some res \<and>
         m_valid res = m_valid ?r \<and>
         length (m_child res) = length (m_child ?r) \<and>
         (\<forall>j<length (m_child ?r).
            m_child res ! j =
              (if i + 1 \<le> int j then func (m_child arg1 ! j) (m_child arg2 ! j)
               else m_child ?r ! j))"
      by (intro "1.IH" [OF True rd1 rd2 wr]) simp_all
    then obtain res where res:
      "binary_construct_loop func ChannelsN arg1 arg2 (i + 1) ?r = Some res"
      "m_valid res = m_valid result"
      "length (m_child res) = length (m_child result)"
      "\<forall>j<length (m_child result).
            m_child res ! j =
              (if i + 1 \<le> int j then func (m_child arg1 ! j) (m_child arg2 ! j)
               else m_child ?r ! j)"
      by auto
    have step: "binary_construct_loop func ChannelsN arg1 arg2 i result = Some res"
      using True rd1 rd2 wr res(1) by (subst binary_construct_loop.simps) simp
    have "m_child res ! j =
              (if i \<le> int j then func (m_child arg1 ! j) (m_child arg2 ! j)
               else m_child result ! j)" if "j < length (m_child result)" for j
    proof (cases "int j = i")
      case True
      with that res(4) "1.prems"(1) show ?thesis by auto
    next
      case False
      with that res(4) "1.prems"(1) show ?thesis by (auto simp: nth_list_update)
    qed
    with step res(2,3) show ?thesis by blast
  qed
qed

lemma unary_construct_loop_channels:
  "0 \<le> i \<Longrightarrow> ChannelsN - 1 = int (length (m_child result)) \<Longrightarrow>
   length (m_child result) \<le> length (m_child arg) \<Longrightarrow>
   \<exists>res. unary_construct_loop func ChannelsN arg i result = Some res \<and>
         m_valid res = m_valid result \<and>
         length (m_child res) = length (m_child result) \<and>
         (\<forall>j<length (m_child result).
            m_child res ! j =
              (if i \<le> int j then func (m_child arg ! j) else m_child result ! j))"
proof (induction func ChannelsN arg i result rule: unary_construct_loop.induct)
  case (1 func ChannelsN arg i result)
  show ?case
  proof (cases "i < ChannelsN - 1")
    case False
    with "1.prems" show ?thesis
      by (simp add: unary_construct_loop.simps)
  next
    case True
    let ?x = "m_child arg ! nat i"
    let ?r = "result\<lparr>m_child := (m_child result)[nat i := func ?x]\<rparr>"
    from True "1.prems" have rd: "subscript arg i = Some ?x"
      and wr: "subscript_assign result i (func ?x) = Some ?r"
      by (simp_all add: subscript_payload subscript_assign_channel)
    from "1.prems" have
      "\<exists>res. unary_construct_loop func ChannelsN arg (i + 1) ?r = Some res \<and>
         m_valid res = m_valid ?r \<and>
         length (m_child res) = length (m_child ?r) \<and>
         (\<forall>j<length (m_child ?r).
            m_child res ! j =
              (if i + 1 \<le> int j then func (m_child arg ! j) else m_child ?r ! j))"
      by (intro "1.IH" [OF True rd wr]) simp_all
    then obtain res where res:
      "unary_construct_loop func ChannelsN arg (i + 1) ?r = Some res"
      "m_valid res = m_valid result"
      "length (m_child res) = length (m_child result)"
      "\<forall>j<length (m_child result).
            m_child res ! j =
              (if i + 1 \<le> int j then func (m_child arg ! j) else m_child ?r ! j)"
      by auto
    have step: "unary_construct_loop func ChannelsN arg i result = Some res"
      using True rd wr res(1) by (subst unary_construct_loop.simps) simp
    have "m_child res ! j =
              (if i \<le> int j then func (m_child arg ! j) else m_child result ! j)"
      if "j < length (m_child result)" for j
    proof (cases "int j = i")
      case True
      with that res(4) "1.prems"(1) show ?thesis by auto
    next
      case False
      with that res(4) "1.prems"(1) show ?thesis by (auto simp: nth_list_update)
    qed
    with step res(2,3) show ?thesis by blast
  qed
qed

lemma binary_apply_loop_channels:
  "0 \<le> i \<Longrightarrow> ChannelsN - 1 = int (length (m_child arg1)) \<Longrightarrow>
   length (m_child arg1) \<le> length (m_child arg2) \<Longrightarrow>
   \<exists>res. binary_apply_loop func ChannelsN arg1 arg2 i = Some res \<and>
         m_valid res = m_valid arg1 \<and>
         length (m_child res) = length (m_child arg1) \<and>
         (\<forall>j<length (m_child arg1).
            m_child res ! j =
              (if i \<le> int j then func (m_child arg1 ! j) (m_child arg2 ! j)
               else m_child arg1 ! j))"
proof (induction func ChannelsN arg1 arg2 i rule: binary_apply_loop.induct)
  case (1 func ChannelsN arg1 arg2 i)
  show ?case
  proof (cases "i < ChannelsN - 1")
    case False
    with "1.prems" show ?thesis
      by (simp add: binary_apply_loop.simps)
  next
    case True
    let ?x = "m_child arg1 ! nat i" and ?y = "m_child arg2 ! nat i"
    let ?r = "arg1\<lparr>m_child := (m_child arg1)[nat i := func ?x ?y]\<rparr>"
    from True "1.prems" have rd1: "subscript arg1 i = Some ?x"
      and rd2: "subscript arg2 i = Some ?y"
      and wr: "subscript_assign arg1 i (func ?x ?y) = Some ?r"
      by (simp_all add: subscript_payload subscript_assign_channel)
    from "1.prems" have
      "\<exists>res. binary_apply_loop func ChannelsN ?r arg2 (i + 1) = Some res \<and>
         m_valid res = m_valid ?r \<and>
         length (m_child res) = length (m_child ?r) \<and>
         (\<forall>j<length (m_child ?r).
            m_child res ! j =
              (if i + 1 \<le> int j then func (m_child ?r ! j) (m_child arg2 ! j)
               else m_child ?r ! j))"
      by (intro "1.IH" [OF True rd1 rd2 wr]) simp_all
    then obtain res where res:
      "binary_apply_loop func ChannelsN ?r arg2 (i + 1) = Some res"
      "m_valid res = m_valid arg1"
      "length (m_child res) = length (m_child arg1)"
      "\<forall>j<length (m_child arg1).
            m_child res ! j =
              (if i + 1 \<le> int j then func (m_child ?r ! j) (m_child arg2 ! j)
               else m_child ?r ! j)"
      by auto
    have step: "binary_apply_loop func ChannelsN arg1 arg2 i = Some res"
      using True rd1 rd2 wr res(1) by (subst binary_apply_loop.simps) simp
    have "m_child res ! j =
              (if i \<le> int j then func (m_child arg1 ! j) (m_child arg2 ! j)
               else m_child arg1 ! j)" if "j < length (m_child arg1)" for j
    proof (cases "int j = i")
      case True
      with that res(4) "1.prems"(1) show ?thesis by auto
    next
      case False
      with that res(4) "1.prems"(1) show ?thesis by (auto simp: nth_list_update)
    qed
    with step res(2,3) show ?thesis by blast
  qed
qed

lemma unary_apply_loop_channels:
  "0 \<le> i \<Longrightarrow> ChannelsN - 1 = int (length (m_child arg)) \<Longrightarrow>
   \<exists>res. unary_apply_loop func ChannelsN arg i = Some res \<and>
         m_valid res = m_valid arg \<and>
         length (m_child res) = length (m_child arg) \<and>
         (\<forall>j<length (m_child arg).
            m_child res ! j = (if i \<le> int j then func (m_child arg ! j) else m_child arg ! j))"
proof (induction func ChannelsN arg i rule: unary_apply_loop.induct)
  case (1 func ChannelsN arg i)
  show ?case
  proof (cases "i < ChannelsN - 1")
    case False
    with "1.prems" show ?thesis
      by (simp add: unary_apply_loop.simps)
  next
    case True
    let ?x = "m_child arg ! nat i"
    let ?r = "arg\<lparr>m_child := (m_child arg)[nat i := func ?x]\<rparr>"
    from True "1.prems" have rd: "subscript arg i = Some ?x"
      and wr: "subscript_assign arg i (func ?x) = Some ?r"
      by (simp_all add: subscript_payload subscript_assign_channel)
    from "1.prems" have
      "\<exists>res. unary_apply_loop func ChannelsN ?r (i + 1) = Some res \<and>
         m_valid res = m_valid ?r \<and>
         length (m_child res) = length (m_child ?r) \<and>
         (\<forall>j<length (m_child ?r).
            m_child res ! j = (if i + 1 \<le> int j then func (m_child ?r ! j) else m_child ?r ! j))"
      by (intro "1.IH" [OF True rd wr]) simp_all
    then obtain res where res:
      "unary_apply_loop func ChannelsN ?r (i + 1) = Some res"
      "m_valid res = m_valid arg"
      "length (m_child res) = length (m_child arg)"
      "\<forall>j<length (m_child arg).
            m_child res ! j = (if i + 1 \<le> int j then func (m_child ?r ! j) else m_child ?r ! j)"
      by auto
    have step: "unary_apply_loop func ChannelsN arg i = Some res"
      using True rd wr res(1) by (subst unary_apply_loop.simps) simp
    have "m_child res ! j = (if i \<le> int j then func (m_child arg ! j) else m_child arg ! j)"
      if "j < length (m_child arg)" for j
    proof (cases "int j = i")
      case True
      with that res(4) "1.prems"(1) show ?thesis by auto
    next
      case False
      with that res(4) "1.prems"(1) show ?thesis by (auto simp: nth_list_update)
    qed
    with step res(2,3) show ?thesis by blast
  qed
qed

section \<open>What the general helpers return\<close>

lemma binary_construct_valid:
  fixes R :: "'c::zero ChannelRange"
  assumes "truth (valid a)" and "truth (valid b)"
    and "length (m_child a) \<le> length (m_child b)"
  shows "\<exists>res. binary_construct R (CompoundNumChannels a + 1) f a b = Some res \<and>
           m_valid res = range_max R \<and>
           length (m_child res) = length (m_child a) \<and>
           (\<forall>j<length (m_child a). m_child res ! j = f (m_child a ! j) (m_child b ! j))"
proof -
  let ?N = "CompoundNumChannels a + 1"
  let ?d = "PixelMask_default R (ChildT_default (?N - 1)) :: ('c list, 'c) PixelMask"
  have len: "length (m_child ?d) = length (m_child a)"
    by (simp add: PixelMask_default_def ChildT_default_def CompoundNumChannels_def)
  have "\<exists>res. binary_construct_loop f ?N a b 0 ?d = Some res \<and>
         m_valid res = m_valid ?d \<and>
         length (m_child res) = length (m_child ?d) \<and>
         (\<forall>j<length (m_child ?d).
            m_child res ! j =
              (if 0 \<le> int j then f (m_child a ! j) (m_child b ! j) else m_child ?d ! j))"
    using assms(3) len
    by (intro binary_construct_loop_channels) (simp_all add: CompoundNumChannels_def)
  then obtain res where res: "binary_construct_loop f ?N a b 0 ?d = Some res"
    "length (m_child res) = length (m_child a)"
    "\<forall>j<length (m_child a). m_child res ! j = f (m_child a ! j) (m_child b ! j)"
    using len by auto
  have "binary_construct R ?N f a b = Some (validate R res)"
    using assms(1,2) res(1) by (simp add: binary_construct_def)
  with res(2,3) show ?thesis
    by (simp add: validate_def)
qed

lemma binary_construct_invalid:
  "\<not> (truth (valid a) \<and> truth (valid b)) \<Longrightarrow>
   binary_construct R ChannelsN f a b = Some (PixelMask_default R (ChildT_default (ChannelsN - 1)))"
  by (auto simp add: binary_construct_def)

lemma unary_construct_valid:
  fixes R :: "'c::zero ChannelRange"
  assumes "truth (valid a)"
  shows "\<exists>res. unary_construct R (CompoundNumChannels a + 1) f a = Some res \<and>
           m_valid res = range_max R \<and>
           length (m_child res) = length (m_child a) \<and>
           (\<forall>j<length (m_child a). m_child res ! j = f (m_child a ! j))"
proof -
  let ?N = "CompoundNumChannels a + 1"
  let ?d = "PixelMask_default R (ChildT_default (?N - 1)) :: ('c list, 'c) PixelMask"
  have len: "length (m_child ?d) = length (m_child a)"
    by (simp add: PixelMask_default_def ChildT_default_def CompoundNumChannels_def)
  have "\<exists>res. unary_construct_loop f ?N a 0 ?d = Some res \<and>
         m_valid res = m_valid ?d \<and>
         length (m_child res) = length (m_child ?d) \<and>
         (\<forall>j<length (m_child ?d).
            m_child res ! j = (if 0 \<le> int j then f (m_child a ! j) else m_child ?d ! j))"
    using len by (intro unary_construct_loop_channels) (simp_all add: CompoundNumChannels_def)
  then obtain res where res: "unary_construct_loop f ?N a 0 ?d = Some res"
    "length (m_child res) = length (m_child a)"
    "\<forall>j<length (m_child a). m_child res ! j = f (m_child a ! j)"
    using len by auto
  have "unary_construct R ?N f a = Some (validate R res)"
    using assms res(1) by (simp add: unary_construct_def)
  with res(2,3) show ?thesis
    by (simp add: validate_def)
qed

lemma unary_construct_invalid:
  "\<not> truth (valid a) \<Longrightarrow>
   unary_construct R ChannelsN f a = Some (PixelMask_default R (ChildT_default (ChannelsN - 1)))"
  by (simp add: unary_construct_def)

lemma binary_apply_valid:
  assumes "truth (valid a)" and "truth (valid b)"
    and "length (m_child a) \<le> length (m_child b)"
  shows "\<exists>res. binary_apply R (CompoundNumChannels a + 1) f a b = Some res \<and>
           m_valid res = m_valid a \<and>
           length (m_child res) = length (m_child a) \<and>
           (\<forall>j<length (m_child a). m_child res ! j = f (m_child a ! j) (m_child b ! j))"
proof -
  have "\<exists>res. binary_apply_loop f (CompoundNumChannels a + 1) a b 0 = Some res \<and>
         m_valid res = m_valid a \<and>
         length (m_child res) = length (m_child a) \<and>
         (\<forall>j<length (m_child a).
            m_child res ! j =
              (if 0 \<le> int j then f (m_child a ! j) (m_child b ! j) else m_child a ! j))"
    using assms(3) by (intro binary_apply_loop_channels) (simp_all add: CompoundNumChannels_def)
  with assms(1,2) show ?thesis
    by (simp add: binary_apply_def)
qed

lemma binary_apply_invalid:
  "\<not> (truth (valid a) \<and> truth (valid b)) \<Longrightarrow>
   binary_apply R ChannelsN f a b = Some (PixelMask_default R (ChildT_default (ChannelsN - 1)))"
  by (auto simp add: binary_apply_def)

lemma unary_apply_valid:
  assumes "truth (valid a)"
  shows "\<exists>res. unary_apply R (CompoundNumChannels a + 1) f a = Some res \<and>
           m_valid res = m_valid a \<and>
           length (m_child res) = length (m_child a) \<and>
           (\<forall>j<length (m_child a). m_child res ! j = f (m_child a ! j))"
proof -
  have "\<exists>res. unary_apply_loop f (CompoundNumChannels a + 1) a 0 = Some res \<and>
         m_valid res = m_valid a \<and>
         length (m_child res) = length (m_child a) \<and>
         (\<forall>j<length (m_child a).
            m_child res ! j = (if 0 \<le> int j then f (m_child a ! j) else m_child a ! j))"
    by (intro unary_apply_loop_channels) (simp_all add: CompoundNumChannels_def)
  with assms show ?thesis
    by (simp add: unary_apply_def)
qed

lemma unary_apply_invalid:
  "\<not> truth (valid a) \<Longrightarrow>
   unary_apply R ChannelsN f a = Some (PixelMask_default R (ChildT_default (ChannelsN - 1)))"
  by (simp add: unary_apply_def)

lemma default_not_valid: "ChannelRange_ok R \<Longrightarrow> \<not> truth (valid (PixelMask_default R c))"
  by (simp add: ChannelRange_ok_def truth_def valid_def PixelMask_default_def)

section \<open>The encoding of the validity channel\<close>

text \<open>
  Claim C7 (validity-encoding invariant). Every constructor leaves the provider's minimum
  or maximum in the validity channel: the default constructor, the implicit ones from a
  child value and from a raw channel value, the positional ones, and the conversion from
  another masked pixel, whose invalid branch assigns the zero of the channel type, the
  minimum under the provider's encoding. \<^verbatim>\<open>invalidate\<close> and \<^verbatim>\<open>validate\<close> establish the
  invariant, and the two in-place dispatch operations return and preserve it.
\<close>

theorem validity_encoding_invariant:
  fixes R :: "'ch::zero ChannelRange"
  shows
    "validity_encoded R (PixelMask_default R c0)
     \<and> validity_encoded R (PixelMask_from R pix)
     \<and> validity_encoded R (PixelMask1 R a0)
     \<and> (range_min R = 0 \<longrightarrow> validity_encoded R (PixelMask_convert R conv c0 other))
     \<and> validity_encoded R (PixelMask2 R a0 a1)
     \<and> validity_encoded R (PixelMask3 R a0 a1 a2)
     \<and> validity_encoded R (PixelMask4 R a0 a1 a2 a3)
     \<and> validity_encoded R (invalidate R p)
     \<and> validity_encoded R (validate R p)
     \<and> (validity_encoded R a \<and> length (m_child a) \<le> length (m_child b) \<longrightarrow>
          (\<exists>res. compound_apply_in_place R IsCompound g a b = Some res \<and>
                 validity_encoded R res))
     \<and> (validity_encoded R a \<longrightarrow>
          (\<exists>res. compound_apply_in_place1 R IsCompound k a = Some res \<and>
                 validity_encoded R res))"
proof -
  have constructors:
    "validity_encoded R (PixelMask_default R c0)"
    "validity_encoded R (PixelMask_from R pix)"
    "validity_encoded R (PixelMask1 R a0)"
    "validity_encoded R (PixelMask2 R a0 a1)"
    "validity_encoded R (PixelMask3 R a0 a1 a2)"
    "validity_encoded R (PixelMask4 R a0 a1 a2 a3)"
    by (simp_all add: validity_encoded_def PixelMask_default_def PixelMask_from_def
        PixelMask1_def PixelMask2_def PixelMask3_def PixelMask4_def)
  have conversion: "validity_encoded R (PixelMask_convert R conv c0 other)"
    if "range_min R = 0"
    using that by (simp add: validity_encoded_def PixelMask_convert_def)
  have setters: "validity_encoded R (invalidate R p)" "validity_encoded R (validate R p)"
    by (simp_all add: validity_encoded_def invalidate_def validate_def)
  have binary_in_place:
    "\<exists>res. compound_apply_in_place R IsCompound g a b = Some res \<and> validity_encoded R res"
    if inv: "validity_encoded R a" and len: "length (m_child a) \<le> length (m_child b)"
  proof (cases "truth (valid a) \<and> truth (valid b)")
    case True
    with len obtain res where "binary_apply R (CompoundNumChannels a + 1) g a b = Some res"
      "m_valid res = m_valid a"
      using binary_apply_valid [of a b R g] by blast
    with inv show ?thesis
      by (simp add: compound_apply_in_place_def PixelMaskBinaryInPlaceCompoundFunctor_general
          validity_encoded_def)
  next
    case False
    then show ?thesis
      by (simp add: compound_apply_in_place_def PixelMaskBinaryInPlaceCompoundFunctor_general
          binary_apply_invalid validity_encoded_def PixelMask_default_def)
  qed
  have unary_in_place:
    "\<exists>res. compound_apply_in_place1 R IsCompound k a = Some res \<and> validity_encoded R res"
    if inv: "validity_encoded R a"
  proof (cases "truth (valid a)")
    case True
    then obtain res where "unary_apply R (CompoundNumChannels a + 1) k a = Some res"
      "m_valid res = m_valid a"
      using unary_apply_valid [of a R k] by blast
    with inv show ?thesis
      by (simp add: compound_apply_in_place1_def PixelMaskUnaryInPlaceCompoundFunctor_general
          validity_encoded_def)
  next
    case False
    then show ?thesis
      by (simp add: compound_apply_in_place1_def PixelMaskUnaryInPlaceCompoundFunctor_general
          unary_apply_invalid validity_encoded_def PixelMask_default_def)
  qed
  from constructors conversion setters binary_in_place unary_in_place show ?thesis
    by blast
qed

theorem validity_encoding_invariant_witness:
  "range_min ChannelRange_uint8 = 0
   \<and> validity_encoded ChannelRange_uint8
       (PixelMask_convert ChannelRange_uint8 id [0] (PixelMask_default ChannelRange_uint8 [9::int]))
   \<and> validity_encoded ChannelRange_uint8 (PixelMask2 ChannelRange_uint8 5 6)
   \<and> length (m_child (PixelMask2 ChannelRange_uint8 5 6))
       \<le> length (m_child (PixelMask2 ChannelRange_uint8 1 2))
   \<and> (\<exists>res. compound_apply_in_place ChannelRange_uint8 True (+)
              (PixelMask2 ChannelRange_uint8 5 6) (PixelMask2 ChannelRange_uint8 1 2) = Some res
            \<and> validity_encoded ChannelRange_uint8 res)
   \<and> (\<exists>res. compound_apply_in_place1 ChannelRange_uint8 True (\<lambda>x. x + 1)
              (PixelMask2 ChannelRange_uint8 5 6) = Some res
            \<and> validity_encoded ChannelRange_uint8 res)"
proof -
  let ?R = ChannelRange_uint8
  have zero: "range_min ?R = 0"
    by (simp add: ChannelRange_uint8_def)
  have inv: "validity_encoded ?R (PixelMask2 ?R 5 6)"
    by (simp add: validity_encoded_def PixelMask2_def)
  have len: "length (m_child (PixelMask2 ?R 5 6)) \<le> length (m_child (PixelMask2 ?R 1 2))"
    by (simp add: PixelMask2_def)
  from validity_encoding_invariant
    [where R = ?R and conv = id and ?c0.0 = "[0]" and other = "PixelMask_default ?R [9::int]"
       and a = "PixelMask2 ?R 5 6" and b = "PixelMask2 ?R 1 2" and g = "(+)"
       and k = "\<lambda>x. x + 1" and IsCompound = True and pix = "[0::int]" and ?a0.0 = 0
       and ?a1.0 = 0 and ?a2.0 = 0 and ?a3.0 = 0 and p = "PixelMask2 ?R 5 6"]
    zero inv len
  show ?thesis by blast
qed

section \<open>Indexing and the channel mean\<close>

text \<open>
  Claim C8 (channel-index boundary). At the validity index \<open>k\<close>, the channel count of the
  payload, \<^verbatim>\<open>operator[]\<close> yields the validity channel, read or written, and below \<open>k\<close>
  it yields the payload's own channel. \<^verbatim>\<open>operator()\<close> does not: its statement at \<open>k\<close>
  names the member function \<^verbatim>\<open>valid\<close>, so its body is ill-formed and no call of it
  yields a channel, the validity channel at \<open>k\<close> least of all.
\<close>

theorem call_operator_validity_index:
  "subscript p (CompoundNumChannels p) = Some (m_valid p)
   \<and> subscript_assign p (CompoundNumChannels p) v = Some (p\<lparr>m_valid := v\<rparr>)
   \<and> call_operator p i = Ill_formed
   \<and> call_operator p (CompoundNumChannels p) \<noteq> Channel (m_valid p)"
  by (simp add: subscript_validity subscript_assign_def call_operator_def)

lemma subscript_below_validity_index:
  "0 \<le> i \<Longrightarrow> i < CompoundNumChannels p \<Longrightarrow> subscript p i = Some (m_child p ! nat i)"
  by (simp add: subscript_def compound_select_channel_def CompoundNumChannels_def)

text \<open>
  Claim C9 (channel mean). An invalid pixel has mean 0. For a valid pixel the loop bound is
  the channel count of the child minus one, so the last payload channel is left out of the
  sum while the divisor is the full count: the valid one-channel pixel 5 has mean 0 (its
  arithmetic mean is 5), and the valid pixel (3, 6, 9) has mean 3 (its arithmetic mean
  is 6).
\<close>

theorem mean_channel_value_omits_last_channel:
  "mean_channel_value real_of_int \<lparr>m_child = [5], m_valid = 255\<rparr> = Some 0
   \<and> mean_channel_value real_of_int \<lparr>m_child = [3, 6, 9], m_valid = 255\<rparr> = Some 3
   \<and> mean_channel_value real_of_int \<lparr>m_child = [3, 6, 9], m_valid = 0\<rparr> = Some 0"
  by (simp add: mean_channel_value_def truth_def valid_def CompoundNumChannels_def
      mean_loop.simps subscript_def compound_select_channel_def)

section \<open>The dispatch framework\<close>

text \<open>
  Claim C6 (unrolled and general dispatch agree). For each of the four operator shapes and
  for a result type of 1, 2, 3 or 4 payload channels (\<open>ChannelsN\<close> from 2 to 5), the
  unrolled helper returns what the general loop helper returns on the same operator and
  operands.
\<close>

theorem unrolled_helpers_equal_general:
  "binary_construct2 R f a b = binary_construct R 2 f a b
   \<and> binary_construct3 R f a b = binary_construct R 3 f a b
   \<and> binary_construct4 R f a b = binary_construct R 4 f a b
   \<and> binary_construct5 R f a b = binary_construct R 5 f a b
   \<and> binary_apply2 R' g a' b = binary_apply R' 2 g a' b
   \<and> binary_apply3 R' g a' b = binary_apply R' 3 g a' b
   \<and> binary_apply4 R' g a' b = binary_apply R' 4 g a' b
   \<and> binary_apply5 R' g a' b = binary_apply R' 5 g a' b
   \<and> unary_construct2 R h a = unary_construct R 2 h a
   \<and> unary_construct3 R h a = unary_construct R 3 h a
   \<and> unary_construct4 R h a = unary_construct R 4 h a
   \<and> unary_construct5 R h a = unary_construct R 5 h a
   \<and> unary_apply2 R' k a' = unary_apply R' 2 k a'
   \<and> unary_apply3 R' k a' = unary_apply R' 3 k a'
   \<and> unary_apply4 R' k a' = unary_apply R' 4 k a'
   \<and> unary_apply5 R' k a' = unary_apply R' 5 k a'"
  by (simp only: binary_construct2_general binary_construct3_general binary_construct4_general
      binary_construct5_general binary_apply2_general binary_apply3_general
      binary_apply4_general binary_apply5_general unary_construct2_general
      unary_construct3_general unary_construct4_general unary_construct5_general
      unary_apply2_general unary_apply3_general unary_apply4_general unary_apply5_general
      simp_thms)

text \<open>
  Claim C2 (binary functional dispatch). Under the provider's encoding: when both operands
  are valid (and every payload channel of the first operand is a payload channel of the
  second), \<^verbatim>\<open>compound_apply(f, a, b)\<close> returns a valid pixel with the payload channels of
  \<open>a\<close>, channel \<open>i\<close> holding \<open>f (a[i]) (b[i])\<close>; when an operand is invalid it returns the
  default-constructed pixel, which is invalid, and the result is the same whatever \<open>f\<close> is:
  \<open>f\<close> has no part in it.
\<close>

theorem compound_apply_contract:
  fixes R :: "'c::zero ChannelRange"
  assumes "ChannelRange_ok R"
  shows
    "(truth (valid a) \<and> truth (valid b) \<and> length (m_child a) \<le> length (m_child b) \<longrightarrow>
        (\<exists>res. compound_apply R IsCompound f a b = Some res \<and>
               truth (valid res) \<and>
               length (m_child res) = length (m_child a) \<and>
               (\<forall>i<length (m_child a). m_child res ! i = f (m_child a ! i) (m_child b ! i))))
     \<and> (\<not> (truth (valid a) \<and> truth (valid b)) \<longrightarrow>
          compound_apply R IsCompound f a b =
            Some (PixelMask_default R (ChildT_default (CompoundNumChannels a)))
          \<and> \<not> truth (valid (PixelMask_default R
                 (ChildT_default (CompoundNumChannels a)) :: ('c list, 'c) PixelMask))
          \<and> compound_apply R IsCompound g a b = compound_apply R IsCompound f a b)"
proof (intro conjI impI)
  assume ops: "truth (valid a) \<and> truth (valid b) \<and> length (m_child a) \<le> length (m_child b)"
  then obtain res where res:
    "binary_construct R (CompoundNumChannels a + 1) f a b = Some res"
    "m_valid res = range_max R"
    "length (m_child res) = length (m_child a)"
    "\<forall>j<length (m_child a). m_child res ! j = f (m_child a ! j) (m_child b ! j)"
    using binary_construct_valid [of a b R f] by blast
  from assms res(2) have "truth (valid res)"
    by (simp add: ChannelRange_ok_def truth_def valid_def)
  with res(1,3,4)
  show "\<exists>res. compound_apply R IsCompound f a b = Some res \<and>
               truth (valid res) \<and>
               length (m_child res) = length (m_child a) \<and>
               (\<forall>i<length (m_child a). m_child res ! i = f (m_child a ! i) (m_child b ! i))"
    by (simp add: compound_apply_def PixelMaskBinaryCompoundFunctor_general)
next
  assume inv: "\<not> (truth (valid a) \<and> truth (valid b))"
  then show "compound_apply R IsCompound f a b =
      Some (PixelMask_default R (ChildT_default (CompoundNumChannels a)))"
    by (simp add: compound_apply_def PixelMaskBinaryCompoundFunctor_general
        binary_construct_invalid)
  from inv show "compound_apply R IsCompound g a b = compound_apply R IsCompound f a b"
    by (simp add: compound_apply_def PixelMaskBinaryCompoundFunctor_general
        binary_construct_invalid)
  from assms show "\<not> truth (valid (PixelMask_default R
      (ChildT_default (CompoundNumChannels a)) :: ('c list, 'c) PixelMask))"
    by (rule default_not_valid)
qed

text \<open>
  The scenario of the spec: over the valid one-channel pixels 5 and 7, addition yields the
  valid pixel 12; with the second operand invalid the result is the invalid default pixel.
\<close>

theorem compound_apply_contract_witness:
  "ChannelRange_ok ChannelRange_uint8
   \<and> truth (valid (PixelMask1 ChannelRange_uint8 5))
   \<and> truth (valid (PixelMask1 ChannelRange_uint8 7))
   \<and> length (m_child (PixelMask1 ChannelRange_uint8 5))
       \<le> length (m_child (PixelMask1 ChannelRange_uint8 7))
   \<and> (\<exists>res. compound_apply ChannelRange_uint8 True (+)
              (PixelMask1 ChannelRange_uint8 5) (PixelMask1 ChannelRange_uint8 7) = Some res
            \<and> truth (valid res) \<and> m_child res = [12])
   \<and> \<not> truth (valid (invalidate ChannelRange_uint8 (PixelMask1 ChannelRange_uint8 7)))
   \<and> compound_apply ChannelRange_uint8 True (+)
        (PixelMask1 ChannelRange_uint8 5)
        (invalidate ChannelRange_uint8 (PixelMask1 ChannelRange_uint8 7)) =
      Some (PixelMask_default ChannelRange_uint8 [0])"
proof -
  let ?R = ChannelRange_uint8
  let ?a = "PixelMask1 ?R 5" and ?b = "PixelMask1 ?R 7"
  let ?b' = "invalidate ?R ?b"
  have ok: "ChannelRange_ok ?R"
    by (rule ChannelRange_uint8_ok)
  have va: "truth (valid ?a)" and vb: "truth (valid ?b)" and nvb: "\<not> truth (valid ?b')"
    and len: "length (m_child ?a) \<le> length (m_child ?b)"
    and n: "CompoundNumChannels ?a = 1"
    by (simp_all add: PixelMask1_def invalidate_def ChannelRange_uint8_def truth_def valid_def
        CompoundNumChannels_def)
  from compound_apply_contract [OF ok, of ?a ?b True "(+)"] va vb len
  obtain res where res: "compound_apply ?R True (+) ?a ?b = Some res" "truth (valid res)"
    "length (m_child res) = length (m_child ?a)"
    "\<forall>i<length (m_child ?a). m_child res ! i = m_child ?a ! i + m_child ?b ! i"
    by blast
  from res(3,4) have "m_child res = [12]"
    by (cases "m_child res") (simp_all add: PixelMask1_def)
  moreover from compound_apply_contract [OF ok, of ?a ?b' True "(+)"] nvb n
  have "compound_apply ?R True (+) ?a ?b' = Some (PixelMask_default ?R [0])"
    by (simp add: ChildT_default_numerals)
  ultimately show ?thesis
    using ok va vb len nvb res(1,2) by blast
qed

text \<open>
  Claim C1 (validity propagation). Under the provider's encoding, each of the four dispatch
  operations returns, and its result is valid exactly when every operand is: both operands
  for the binary operations (functional and in-place), the single operand for the unary
  ones. For the binary operations every payload channel of the first operand is taken to be
  a payload channel of the second.
\<close>

theorem validity_propagation_law:
  fixes R :: "'c::zero ChannelRange" and R' :: "'a::zero ChannelRange"
    and a :: "('a list, 'a) PixelMask" and b :: "('b::zero list, 'b) PixelMask"
  assumes "ChannelRange_ok R" and "ChannelRange_ok R'"
    and "length (m_child a) \<le> length (m_child b)"
  shows
    "(\<exists>res. compound_apply R IsCompound f a b = Some res \<and>
            truth (valid res) = (truth (valid a) \<and> truth (valid b)))
     \<and> (\<exists>res. compound_apply_in_place R' IsCompound g a b = Some res \<and>
              truth (valid res) = (truth (valid a) \<and> truth (valid b)))
     \<and> (\<exists>res. compound_apply1 R IsCompound h a = Some res \<and>
              truth (valid res) = truth (valid a))
     \<and> (\<exists>res. compound_apply_in_place1 R' IsCompound k a = Some res \<and>
              truth (valid res) = truth (valid a))"
proof -
  have max_valid: "truth (valid p)" if "m_valid p = range_max R" for p :: "('c list, 'c) PixelMask"
    using that assms(1) by (simp add: ChannelRange_ok_def truth_def valid_def)
  have same_valid: "truth (valid p) = truth (valid a)" if "m_valid p = m_valid a"
    for p :: "('a list, 'a) PixelMask"
    using that by (simp add: valid_def)
  have binary_functional: "\<exists>res. compound_apply R IsCompound f a b = Some res \<and>
      truth (valid res) = (truth (valid a) \<and> truth (valid b))"
  proof (cases "truth (valid a) \<and> truth (valid b)")
    case True
    with assms(3) binary_construct_valid [of a b R f] max_valid show ?thesis
      by (auto simp add: compound_apply_def PixelMaskBinaryCompoundFunctor_general)
  next
    case False
    then show ?thesis
      by (simp add: compound_apply_def PixelMaskBinaryCompoundFunctor_general
          binary_construct_invalid default_not_valid [OF assms(1)])
  qed
  have binary_in_place: "\<exists>res. compound_apply_in_place R' IsCompound g a b = Some res \<and>
      truth (valid res) = (truth (valid a) \<and> truth (valid b))"
  proof (cases "truth (valid a) \<and> truth (valid b)")
    case True
    with assms(3) binary_apply_valid [of a b R' g] same_valid show ?thesis
      by (auto simp add: compound_apply_in_place_def
          PixelMaskBinaryInPlaceCompoundFunctor_general)
  next
    case False
    then show ?thesis
      by (simp add: compound_apply_in_place_def PixelMaskBinaryInPlaceCompoundFunctor_general
          binary_apply_invalid default_not_valid [OF assms(2)])
  qed
  have unary_functional: "\<exists>res. compound_apply1 R IsCompound h a = Some res \<and>
      truth (valid res) = truth (valid a)"
  proof (cases "truth (valid a)")
    case True
    with unary_construct_valid [of a R h] max_valid show ?thesis
      by (auto simp add: compound_apply1_def PixelMaskUnaryCompoundFunctor_general)
  next
    case False
    then show ?thesis
      by (simp add: compound_apply1_def PixelMaskUnaryCompoundFunctor_general
          unary_construct_invalid default_not_valid [OF assms(1)])
  qed
  have unary_in_place: "\<exists>res. compound_apply_in_place1 R' IsCompound k a = Some res \<and>
      truth (valid res) = truth (valid a)"
  proof (cases "truth (valid a)")
    case True
    with unary_apply_valid [of a R' k] same_valid show ?thesis
      by (auto simp add: compound_apply_in_place1_def
          PixelMaskUnaryInPlaceCompoundFunctor_general)
  next
    case False
    then show ?thesis
      by (simp add: compound_apply_in_place1_def PixelMaskUnaryInPlaceCompoundFunctor_general
          unary_apply_invalid default_not_valid [OF assms(2)])
  qed
  from binary_functional binary_in_place unary_functional unary_in_place show ?thesis
    by blast
qed

theorem validity_propagation_law_witness:
  "ChannelRange_ok ChannelRange_uint8
   \<and> length (m_child (PixelMask2 ChannelRange_uint8 5 6))
       \<le> length (m_child (PixelMask_default ChannelRange_uint8 [1, 2::int]))
   \<and> (\<exists>res. compound_apply ChannelRange_uint8 True (*)
              (PixelMask2 ChannelRange_uint8 5 6) (PixelMask_default ChannelRange_uint8 [1, 2::int])
              = Some res
            \<and> truth (valid res) =
                (truth (valid (PixelMask2 ChannelRange_uint8 5 6)) \<and>
                 truth (valid (PixelMask_default ChannelRange_uint8 [1, 2::int]))))
   \<and> (\<exists>res. compound_apply_in_place1 ChannelRange_uint8 True (\<lambda>x. x + 1)
              (PixelMask2 ChannelRange_uint8 5 6) = Some res
            \<and> truth (valid res) = truth (valid (PixelMask2 ChannelRange_uint8 5 6)))"
proof -
  have ok: "ChannelRange_ok ChannelRange_uint8"
    by (rule ChannelRange_uint8_ok)
  have len: "length (m_child (PixelMask2 ChannelRange_uint8 5 6))
      \<le> length (m_child (PixelMask_default ChannelRange_uint8 [1, 2::int]))"
    by (simp add: PixelMask2_def PixelMask_default_def)
  from validity_propagation_law [OF ok ok len, where f = "(*)" and k = "\<lambda>x. x + 1" and IsCompound = True] ok len
  show ?thesis by blast
qed

section \<open>Properties of the mask views\<close>

text \<open>
  Claim C3 (mask application replacement). Over an image of masked pixels the view returns
  the payload at a valid pixel. At an invalid pixel it returns the member
  \<^verbatim>\<open>m_replacement_value\<close>, which the constructor never sets from its
  \<^verbatim>\<open>replacement_value\<close> argument: the value returned is the default-initialized one, and
  over any view the answer is the same whatever replacement was asked for. Over an image
  that holds the invalid pixel 0, with replacement 255, the view answers 0, not 255.
\<close>

theorem apply_mask_ignores_replacement:
  "ApplyPixelMaskView_at (apply_mask uninit (Stored pixels) r) col row plane =
     Some (if truth (valid (pixels col row plane)) then child (pixels col row plane)
           else uninit)
   \<and> ApplyPixelMaskView_at (apply_mask uninit view r) col row plane =
       ApplyPixelMaskView_at (apply_mask uninit view r') col row plane
   \<and> ApplyPixelMaskView_at
        (apply_mask [0]
           (Stored (image_of
              (invalidate ChannelRange_uint8 (PixelMask_from ChannelRange_uint8 [0::int]))))
           [255]) 0 0 0 = Some [0]"
  by (simp add: view_defs ChannelRange_uint8_def image_of_def)

text \<open>
  Claim C4 (mask creation, sentinel semantics). With a sentinel \<open>s\<close> configured by
  \<^verbatim>\<open>create_mask(view, s)\<close>, the pixel returned at a coordinate wraps the underlying
  pixel, and its validity channel is the provider's minimum when the underlying pixel equals
  \<open>s\<close> and the maximum otherwise; a view with no sentinel configured returns every pixel
  wrapped and marked with the maximum. Under the provider's encoding the first reads as
  invalid and the second as valid.
\<close>

theorem create_mask_sentinel_semantics:
  "child (CreatePixelMaskView_at R (create_mask uninit view s) col row plane) = view col row plane
   \<and> valid (CreatePixelMaskView_at R (create_mask uninit view s) col row plane) =
       (if view col row plane = s then range_min R else range_max R)
   \<and> (\<not> m_use_nodata_value pm \<longrightarrow>
        CreatePixelMaskView_at R pm col row plane = PixelMask_from R (m_view pm col row plane))
   \<and> (ChannelRange_ok R \<longrightarrow>
        truth (valid (CreatePixelMaskView_at R (create_mask uninit view s) col row plane)) =
          (view col row plane \<noteq> s)
        \<and> (\<not> m_use_nodata_value pm \<longrightarrow>
             truth (valid (CreatePixelMaskView_at R pm col row plane))))"
  by (simp add: view_defs ChannelRange_ok_def)

theorem create_mask_sentinel_semantics_witness:
  "ChannelRange_ok ChannelRange_uint8
   \<and> \<not> m_use_nodata_value (CreatePixelMaskView_init [9] (image_of [0::int]) [0])
   \<and> truth (valid (CreatePixelMaskView_at ChannelRange_uint8
        (create_mask [9] (image_of [0::int]) [7]) 0 0 0)) = (image_of [0::int] 0 0 0 \<noteq> [7])
   \<and> truth (valid (CreatePixelMaskView_at ChannelRange_uint8
        (CreatePixelMaskView_init [9] (image_of [0::int]) [0]) 0 0 0))"
proof -
  have ok: "ChannelRange_ok ChannelRange_uint8"
    by (rule ChannelRange_uint8_ok)
  have plain: "\<not> m_use_nodata_value (CreatePixelMaskView_init [9] (image_of [0::int]) [0])"
    by (simp add: CreatePixelMaskView_init_def)
  from create_mask_sentinel_semantics
    [where R = ChannelRange_uint8 and uninit = "[9]" and view = "image_of [0::int]"
       and s = "[7]" and col = 0 and row = 0 and plane = 0
       and pm = "CreatePixelMaskView_init [9] (image_of [0::int]) [0]"]
    ok plain
  show ?thesis by blast
qed

text \<open>
  Claim C5 (round trip through the two views). The mask application view wrapped directly
  around the mask creation view yields no pixel at any coordinate: the mask creation view
  returns its pixels by value, and the first statement of
  \<^verbatim>\<open>ApplyPixelMaskView::operator()\<close> needs a reference to a pixel that the wrapped view
  holds. For the image of pixel 7 and the sentinel 0 the query does not yield 7; over an
  image that holds the pixels of the mask creation view it does.
\<close>

theorem apply_mask_over_create_mask_yields_nothing:
  "ApplyPixelMaskView_at
     (apply_mask uninit' (CreatePixelMaskView_view R (create_mask uninit view s)) r)
     col row plane = None
   \<and> ApplyPixelMaskView_at
       (apply_mask [1]
          (CreatePixelMaskView_view ChannelRange_uint8 (create_mask [2] (image_of [7::int]) [0]))
          [255]) 3 4 0 \<noteq> Some [7]
   \<and> ApplyPixelMaskView_at
       (apply_mask [1]
          (Stored (CreatePixelMaskView_at ChannelRange_uint8
             (create_mask [2] (image_of [7::int]) [0])))
          [255]) 3 4 0 = Some [7]"
  by (simp add: view_defs ChannelRange_uint8_def image_of_def)

text \<open>
  Over an image that holds the pixels of the mask creation view the round trip holds in
  general: under the provider's encoding, a pixel \<open>x\<close> other than the sentinel comes back
  unchanged, whatever the replacement value.
\<close>

lemma round_trip_over_stored_mask:
  assumes "ChannelRange_ok R" and "x \<noteq> s" and "view col row plane = x"
  shows "ApplyPixelMaskView_at
           (apply_mask uninit' (Stored (CreatePixelMaskView_at R (create_mask uninit view s))) r)
           col row plane = Some x"
  using assms by (simp add: view_defs ChannelRange_ok_def)

text \<open>
  Claim C10 (the two-argument constructor of the mask creation view). The constructor
  ignores its \<^verbatim>\<open>nodata_value\<close> argument and clears the use-nodata flag, so the view it
  builds returns every pixel marked with the provider's maximum, also a pixel equal to that
  argument; \<^verbatim>\<open>create_mask(view, s)\<close> is this constructor followed by
  \<^verbatim>\<open>set_nodata_value(s)\<close>, which stores \<open>s\<close> and raises the flag, and only then a pixel
  equal to \<open>s\<close> is marked with the minimum.
\<close>

theorem CreatePixelMaskView_constructor_ignores_nodata:
  "CreatePixelMaskView_init uninit view n1 = CreatePixelMaskView_init uninit view n2
   \<and> \<not> m_use_nodata_value (CreatePixelMaskView_init uninit view n1)
   \<and> CreatePixelMaskView_at R (CreatePixelMaskView_init uninit view n1) col row plane =
       PixelMask_from R (view col row plane)
   \<and> valid (CreatePixelMaskView_at R (CreatePixelMaskView_init uninit view n1) col row plane) =
       range_max R
   \<and> create_mask uninit view s = set_nodata_value (CreatePixelMaskView_init uninit view s) s
   \<and> m_use_nodata_value (set_nodata_value pm s)
   \<and> m_nodata_value (set_nodata_value pm s) = s
   \<and> valid (CreatePixelMaskView_at R
        (set_nodata_value (CreatePixelMaskView_init uninit view n1) s) col row plane) =
       (if view col row plane = s then range_min R else range_max R)"
  by (simp add: view_defs)

end
